theory Spec2Isabelle
  imports Complex_Main
begin

section \<open>Explicto-Nummus: the statement import pipeline of \<open>database.py\<close>\<close>

text \<open>
  The development embeds the class \<open>BankDatabase\<close> of \<open>database.py\<close>: the scalar
  parsers \<open>parse_amount\<close> and \<open>parse_date\<close>, the identity resolution
  \<open>get_or_create_bank\<close> / \<open>get_or_create_account\<close> and the import
  \<open>import_csv_data\<close>.

  Conventions of the embedding.
  \<^item> A Python \<open>str\<close> is a \<open>string\<close>; each \<open>char\<close> stands for the code point of the
    same number, so the texts covered are those whose code points are below 256.
  \<^item> A raised exception is a value \<open>Exc cls msg\<close>, where \<open>msg\<close> is what \<open>str(e)\<close> gives;
    a function that may raise returns \<open>exc + 'a\<close> with \<open>Inl\<close> for the exception.
  \<^item> The library functions the code calls (\<open>str.strip\<close>, \<open>decimal.Decimal\<close>,
    \<open>datetime.strptime\<close>, \<open>float\<close>) are written out as far as the code depends on them.
\<close>

subsection \<open>Exceptions\<close>

datatype exc_class =
    ValueError | InvalidOperation | Overflow | IndexError | IntegrityError
  | FileNotFoundError | OtherError

datatype exc = Exc exc_class string

fun str_exc :: "exc \<Rightarrow> string" where
  "str_exc (Exc cls msg) = msg"

fun exc_cls :: "exc \<Rightarrow> exc_class" where
  "exc_cls (Exc cls msg) = cls"

subsection \<open>Text helpers: \<open>str.strip\<close>, \<open>str.replace\<close>, \<open>startswith\<close>, \<open>in\<close>\<close>

text \<open>The code points below 256 for which \<open>str.isspace\<close> holds.\<close>

definition is_space :: "char \<Rightarrow> bool" where
  "is_space c = (of_char c \<in> {9, 10, 11, 12, 13, 28, 29, 30, 31, 32, 133, 160 :: nat})"

definition strip :: "string \<Rightarrow> string" where
  "strip s = rev (dropWhile is_space (rev (dropWhile is_space s)))"

text \<open>\<open>s.replace(c, '')\<close> for a one-character \<open>c\<close>.\<close>

definition remove_char :: "char \<Rightarrow> string \<Rightarrow> string" where
  "remove_char c s = filter (\<lambda>x. x \<noteq> c) s"

fun startswith :: "string \<Rightarrow> string \<Rightarrow> bool" where
  "startswith s [] = True"
| "startswith [] (p # ps) = False"
| "startswith (c # cs) (p # ps) = (c = p \<and> startswith cs ps)"

definition endswith :: "string \<Rightarrow> string \<Rightarrow> bool" where
  "endswith s p = startswith (rev s) (rev p)"

text \<open>\<open>p in s\<close> on strings: \<open>p\<close> occurs in \<open>s\<close> as a contiguous substring.\<close>

fun contains :: "string \<Rightarrow> string \<Rightarrow> bool" where
  "contains [] p = (p = [])"
| "contains (c # cs) p = (startswith (c # cs) p \<or> contains cs p)"

definition is_digit :: "char \<Rightarrow> bool" where
  "is_digit c = (48 \<le> (of_char c :: nat) \<and> (of_char c :: nat) \<le> 57)"

definition digit_val :: "char \<Rightarrow> nat" where
  "digit_val c = of_char c - 48"

text \<open>The number a string of decimal digits denotes (\<open>int(s)\<close>), most significant first.\<close>

definition digits_val :: "string \<Rightarrow> nat" where
  "digits_val s = foldl (\<lambda>acc c. 10 * acc + digit_val c) 0 s"

definition lower_ascii :: "char \<Rightarrow> char" where
  "lower_ascii c =
     (if 65 \<le> (of_char c :: nat) \<and> (of_char c :: nat) \<le> 90
      then char_of ((of_char c :: nat) + 32) else c)"

text \<open>\<open>str(n)\<close> for a non-negative integer.\<close>

fun str_nat :: "nat \<Rightarrow> string" where
  "str_nat n =
     (if n < 10 then [''0123456789'' ! n]
      else str_nat (n div 10) @ [''0123456789'' ! (n mod 10)])"

declare str_nat.simps [simp del]

subsection \<open>\<open>decimal.Decimal\<close>\<close>

text \<open>
  A \<open>Decimal\<close> is a sign, a coefficient and an exponent (\<open>Finite s c e\<close> is
  \<open>(-1)^s * c * 10^e\<close>), or one of the special values. The payload of a NaN is not kept.
\<close>

datatype decimal = Finite bool nat int | Infinite bool | QNaN bool | SNaN bool

definition conversion_syntax :: exc where
  "conversion_syntax = Exc InvalidOperation ''[<class 'decimal.ConversionSyntax'>]''"

definition invalid_operation :: exc where
  "invalid_operation = Exc InvalidOperation ''[<class 'decimal.InvalidOperation'>]''"

definition decimal_overflow :: exc where
  "decimal_overflow = Exc Overflow ''[<class 'decimal.Overflow'>]''"

text \<open>An optional sign in front of a numeric string or of an exponent.\<close>

fun split_sign :: "string \<Rightarrow> bool \<times> string" where
  "split_sign [] = (False, [])"
| "split_sign (c # cs) =
     (if c = CHR ''-'' then (True, cs)
      else if c = CHR ''+'' then (False, cs)
      else (False, c # cs))"

text \<open>
  The exponent part after the digits: nothing, or \<open>e\<close>/\<open>E\<close>, an optional sign and at
  least one digit.
\<close>

definition parse_exponent :: "string \<Rightarrow> int option" where
  "parse_exponent s =
     (case s of
        [] \<Rightarrow> Some 0
      | c # r \<Rightarrow>
          if c = CHR ''e'' \<or> c = CHR ''E'' then
            (case split_sign r of (neg, ds) \<Rightarrow>
               if ds \<noteq> [] \<and> list_all is_digit ds
               then Some (if neg then - int (digits_val ds) else int (digits_val ds))
               else None)
          else None)"

text \<open>
  The numeric-string grammar of the \<open>decimal\<close> module, after the sign:
  \<open>Infinity | Inf | NaN digits | sNaN digits\<close> in any letter case, or
  \<open>digits [. [digits]] [exponent]\<close> and \<open>. digits [exponent]\<close>.
\<close>

definition parse_unsigned :: "bool \<Rightarrow> string \<Rightarrow> decimal option" where
  "parse_unsigned sg s =
     (let low = map lower_ascii s in
      if low = ''inf'' \<or> low = ''infinity'' then Some (Infinite sg)
      else if take 3 low = ''nan'' \<and> list_all is_digit (drop 3 low) then Some (QNaN sg)
      else if take 4 low = ''snan'' \<and> list_all is_digit (drop 4 low) then Some (SNaN sg)
      else
        let ip = takeWhile is_digit s;
            r1 = dropWhile is_digit s;
            fp = (case r1 of [] \<Rightarrow> [] | c # r \<Rightarrow>
                    if c = CHR ''.'' then takeWhile is_digit r else []);
            r2 = (case r1 of [] \<Rightarrow> [] | c # r \<Rightarrow>
                    if c = CHR ''.'' then dropWhile is_digit r else r1)
        in if ip = [] \<and> fp = [] then None
           else (case parse_exponent r2 of
                   None \<Rightarrow> None
                 | Some ex \<Rightarrow> Some (Finite sg (digits_val (ip @ fp)) (ex - int (length fp)))))"

text \<open>
  \<open>Decimal(value)\<close> for a string: surrounding whitespace is removed, underscores are
  dropped, and the rest must be a numeric string; otherwise \<open>InvalidOperation\<close> is raised
  with the message \<open>[<class 'decimal.ConversionSyntax'>]\<close>. The construction is exact. The
  bounds of the C implementation on exponents of nineteen digits and more are not part of
  the model.
\<close>

definition Decimal :: "string \<Rightarrow> exc + decimal" where
  "Decimal v =
     (case split_sign (remove_char (CHR ''_'') (strip v)) of (sg, body) \<Rightarrow>
        (case parse_unsigned sg body of
           None \<Rightarrow> Inl conversion_syntax
         | Some d \<Rightarrow> Inr d))"

text \<open>The default context: 28 digits, round half even, exponents within \<open>\<plusminus>999999\<close>.\<close>

definition prec :: nat where "prec = 28"
definition Emax :: int where "Emax = 999999"
definition Emin :: int where "Emin = - 999999"
definition Etiny :: int where "Etiny = Emin - int prec + 1"
definition Etop :: int where "Etop = Emax - int prec + 1"

text \<open>The number of decimal digits of a coefficient (\<open>len(str(c))\<close>).\<close>

fun ndigits :: "nat \<Rightarrow> nat" where
  "ndigits n = (if n < 10 then 1 else Suc (ndigits (n div 10)))"

declare ndigits.simps [simp del]

text \<open>
  Rounding a finite result to the context (\<open>Decimal._fix\<close>): a zero keeps its sign and
  has its exponent clamped; a coefficient with more than \<open>prec\<close> digits, or an exponent
  below \<open>Etiny\<close>, is rounded half-even; a result beyond \<open>Emax\<close> raises \<open>Overflow\<close>,
  which the default context traps.
\<close>

definition fix_context :: "bool \<Rightarrow> nat \<Rightarrow> int \<Rightarrow> exc + decimal" where
  "fix_context sg c e =
     (if c = 0 then Inr (Finite sg 0 (min (max e Etiny) Emax))
      else
        let exp_min0 = int (ndigits c) + e - int prec in
        if exp_min0 > Etop then Inl decimal_overflow
        else
          let exp_min = max exp_min0 Etiny in
          if e < exp_min then
            let k = nat (exp_min - e);
                q = c div 10 ^ k;
                r = c mod 10 ^ k;
                q1 = (if 2 * r > 10 ^ k \<or> (2 * r = 10 ^ k \<and> odd q) then q + 1 else q);
                q2 = (if ndigits q1 > prec then q1 div 10 else q1);
                exp2 = (if ndigits q1 > prec then exp_min + 1 else exp_min)
            in if exp2 > Etop then Inl decimal_overflow else Inr (Finite sg q2 exp2)
          else Inr (Finite sg c e))"

text \<open>
  Unary minus (\<open>Decimal.__neg__\<close>): a signalling NaN raises, a quiet NaN is returned, a
  zero becomes the positive zero, any other value changes sign; the result is rounded to
  the context.
\<close>

fun dec_neg :: "decimal \<Rightarrow> exc + decimal" where
  "dec_neg (SNaN s) = Inl invalid_operation"
| "dec_neg (QNaN s) = Inr (QNaN s)"
| "dec_neg (Infinite s) = Inr (Infinite (\<not> s))"
| "dec_neg (Finite s c e) = fix_context (if c = 0 then False else \<not> s) c e"

text \<open>\<open>d >= 0\<close>: an ordering comparison with a NaN raises \<open>InvalidOperation\<close>.\<close>

fun dec_ge0 :: "decimal \<Rightarrow> exc + bool" where
  "dec_ge0 (SNaN s) = Inl invalid_operation"
| "dec_ge0 (QNaN s) = Inl invalid_operation"
| "dec_ge0 (Infinite s) = Inr (\<not> s)"
| "dec_ge0 (Finite s c e) = Inr (if s then c = 0 else True)"

text \<open>The truth value of a \<open>Decimal\<close>: false exactly for a zero.\<close>

fun dec_truthy :: "decimal \<Rightarrow> bool" where
  "dec_truthy (Finite s c e) = (c \<noteq> 0)"
| "dec_truthy d = True"

text \<open>The exact value of a finite \<open>Decimal\<close>.\<close>

fun dec_value :: "decimal \<Rightarrow> rat" where
  "dec_value (Finite s c e) =
     (if s then - 1 else 1) * of_nat c * (if e \<ge> 0 then 10 ^ nat e else 1 / 10 ^ nat (- e))"
| "dec_value d = 0"

subsection \<open>\<open>parse_amount\<close>\<close>

definition parse_amount :: "string option \<Rightarrow> exc + decimal" where
  "parse_amount amount_str =
     (case amount_str of
        None \<Rightarrow> Inr (Finite False 0 (- 2))
      | Some s \<Rightarrow>
          if s = [] \<or> strip s = [] \<or> strip s = ''nan'' then Inr (Finite False 0 (- 2))
          else
            let cleaned = strip (remove_char (CHR 0x22) (remove_char (CHR '','') s)) in
            if startswith cleaned ''-'' then Decimal cleaned
            else if startswith cleaned ''('' \<and> endswith cleaned '')'' then
              (case Decimal (butlast (tl cleaned)) of
                 Inl e \<Rightarrow> Inl e
               | Inr d \<Rightarrow> dec_neg d)
            else Decimal cleaned)"

subsection \<open>\<open>datetime.strptime\<close> and \<open>strftime\<close>\<close>

text \<open>
  \<open>strptime\<close> turns the format into a regular expression and takes the first way of
  matching it at the start of the text, trying the alternatives of each directive in the
  order they are written:
  \<open>%m\<close> is \<open>1[0-2]|0[1-9]|[1-9]\<close>, \<open>%d\<close> is \<open>3[0-1]|[1-2]\d|0[1-9]|[1-9]| [1-9]\<close>,
  \<open>%Y\<close> is \<open>\d\d\d\d\<close>. Text left over after the match, a year 0 and a day beyond the end
  of the month raise \<open>ValueError\<close>.
\<close>

datatype directive = Dir_m | Dir_d | Dir_Y | Lit char

definition digit_in :: "nat \<Rightarrow> nat \<Rightarrow> char \<Rightarrow> bool" where
  "digit_in lo hi c = (48 + lo \<le> (of_char c :: nat) \<and> (of_char c :: nat) \<le> 48 + hi)"

text \<open>One alternative of two characters, and one of a single character.\<close>

definition alt2 :: "(char \<Rightarrow> bool) \<Rightarrow> (char \<Rightarrow> bool) \<Rightarrow> (char \<Rightarrow> char \<Rightarrow> nat) \<Rightarrow> string
    \<Rightarrow> (nat \<times> string) list" where
  "alt2 p1 p2 v s =
     (case s of
        c1 # c2 # r \<Rightarrow> if p1 c1 \<and> p2 c2 then [(v c1 c2, r)] else []
      | _ \<Rightarrow> [])"

definition alt1 :: "(char \<Rightarrow> bool) \<Rightarrow> string \<Rightarrow> (nat \<times> string) list" where
  "alt1 p s = (case s of c # r \<Rightarrow> if p c then [(digit_val c, r)] else [] | [] \<Rightarrow> [])"

definition two_digits :: "char \<Rightarrow> char \<Rightarrow> nat" where
  "two_digits c1 c2 = 10 * digit_val c1 + digit_val c2"

definition match_m :: "string \<Rightarrow> (nat \<times> string) list" where
  "match_m s =
     alt2 (digit_in 1 1) (digit_in 0 2) two_digits s
     @ alt2 (digit_in 0 0) (digit_in 1 9) two_digits s
     @ alt1 (digit_in 1 9) s"

definition match_d :: "string \<Rightarrow> (nat \<times> string) list" where
  "match_d s =
     alt2 (digit_in 3 3) (digit_in 0 1) two_digits s
     @ alt2 (digit_in 1 2) is_digit two_digits s
     @ alt2 (digit_in 0 0) (digit_in 1 9) two_digits s
     @ alt1 (digit_in 1 9) s
     @ alt2 (\<lambda>c. c = CHR '' '') (digit_in 1 9) (\<lambda>c1 c2. digit_val c2) s"

definition match_Y :: "string \<Rightarrow> (nat \<times> string) list" where
  "match_Y s =
     (if length s \<ge> 4 \<and> list_all is_digit (take 4 s)
      then [(digits_val (take 4 s), drop 4 s)] else [])"

text \<open>
  All ways of matching a format at the start of a text, in the order the regular
  expression engine tries them; each carries the (year, month, day) read so far and the
  text left over.
\<close>

fun match_format :: "directive list \<Rightarrow> nat \<times> nat \<times> nat \<Rightarrow> string
    \<Rightarrow> ((nat \<times> nat \<times> nat) \<times> string) list" where
  "match_format [] ymd s = [(ymd, s)]"
| "match_format (Dir_m # ds) (y, m, d) s =
     concat (map (\<lambda>(v, r). match_format ds (y, v, d) r) (match_m s))"
| "match_format (Dir_d # ds) (y, m, d) s =
     concat (map (\<lambda>(v, r). match_format ds (y, m, v) r) (match_d s))"
| "match_format (Dir_Y # ds) (y, m, d) s =
     concat (map (\<lambda>(v, r). match_format ds (v, m, d) r) (match_Y s))"
| "match_format (Lit c # ds) ymd s =
     (case s of [] \<Rightarrow> [] | x # r \<Rightarrow> if x = c then match_format ds ymd r else [])"

definition is_leap :: "nat \<Rightarrow> bool" where
  "is_leap y = (if y mod 100 = 0 then y mod 400 = 0 else y mod 4 = 0)"

definition days_in_month :: "nat \<Rightarrow> nat \<Rightarrow> nat" where
  "days_in_month y m =
     (if m = 2 then (if is_leap y then 29 else 28)
      else if m = 4 \<or> m = 6 \<or> m = 9 \<or> m = 11 then 30 else 31)"

text \<open>
  \<open>datetime.strptime(s, fmt)\<close> for a format of \<open>%m\<close>, \<open>%d\<close>, \<open>%Y\<close> and literal
  characters; \<open>None\<close> stands for the \<open>ValueError\<close> it raises (its message is replaced by
  \<open>parse_date\<close>). The fields start from 1900-01-01.
\<close>

definition strptime :: "string \<Rightarrow> directive list \<Rightarrow> (nat \<times> nat \<times> nat) option" where
  "strptime s fmt =
     (case match_format fmt (1900, 1, 1) s of
        [] \<Rightarrow> None
      | ((y, m, d), rest) # _ \<Rightarrow>
          if rest \<noteq> [] then None
          else if y < 1 \<or> days_in_month y m < d then None
          else Some (y, m, d))"

definition zfill :: "nat \<Rightarrow> string \<Rightarrow> string" where
  "zfill w s = replicate (w - length s) (CHR ''0'') @ s"

text \<open>
  \<open>strftime('%Y-%m-%d')\<close> as the library reference gives it: the year in four digits, month
  and day in two, each padded with zeros.
\<close>

fun strftime_Ymd :: "nat \<times> nat \<times> nat \<Rightarrow> string" where
  "strftime_Ymd (y, m, d) =
     zfill 4 (str_nat y) @ ''-'' @ zfill 2 (str_nat m) @ ''-'' @ zfill 2 (str_nat d)"

subsection \<open>\<open>parse_date\<close>\<close>

definition parse_date :: "string \<Rightarrow> exc + string" where
  "parse_date date_str =
     (if CHR ''/'' \<in> set date_str then
        (case strptime date_str [Dir_m, Lit (CHR ''/''), Dir_d, Lit (CHR ''/''), Dir_Y] of
           None \<Rightarrow> Inl (Exc ValueError (''Unable to parse date: '' @ date_str))
         | Some date_obj \<Rightarrow> Inr (strftime_Ymd date_obj))
      else
        (case strptime date_str [Dir_Y, Lit (CHR ''-''), Dir_m, Lit (CHR ''-''), Dir_d] of
           None \<Rightarrow> Inl (Exc ValueError (''Unable to parse date: '' @ date_str))
         | Some date_obj \<Rightarrow> Inr date_str))"

subsection \<open>\<open>float\<close> of a \<open>Decimal\<close>\<close>

text \<open>
  A Python \<open>float\<close> is an IEEE-754 binary64 number: a finite value (held as the rational
  it denotes, the two zeros identified), an infinity or a NaN.
\<close>

datatype pyfloat = Fin rat | Infty bool | NaN

text \<open>\<open>int.bit_length\<close>.\<close>

fun bit_length :: "nat \<Rightarrow> nat" where
  "bit_length n = (if n = 0 then 0 else Suc (bit_length (n div 2)))"

declare bit_length.simps [simp del]

text \<open>The integer nearest to \<open>p / q\<close>, a tie going to the even one.\<close>

definition round_half_even :: "nat \<Rightarrow> nat \<Rightarrow> nat" where
  "round_half_even p q =
     (let d = p div q; r = p mod q
      in if 2 * r > q \<or> (2 * r = q \<and> odd d) then d + 1 else d)"

text \<open>
  The binary64 number nearest to the positive rational \<open>p / q\<close> (ties to even): 53
  significant bits, the least exponent of the last bit is \<open>-1074\<close>, and a result of
  \<open>2 ^ 1024\<close> or more is the infinity.
\<close>

definition binary64 :: "nat \<Rightarrow> nat \<Rightarrow> pyfloat" where
  "binary64 p q =
     (let d = int (bit_length p) - int (bit_length q);
          e2 = (if (if d \<ge> 0 then q * 2 ^ nat d \<le> p else q \<le> p * 2 ^ nat (- d))
                then d else d - 1);
          sh = max (e2 - 52) (- 1074)
      in if sh \<ge> 0 then
           (let m = round_half_even p (q * 2 ^ nat sh)
            in if m * 2 ^ nat sh \<ge> 2 ^ 1024 then Infty False else Fin (of_nat (m * 2 ^ nat sh)))
         else Fin (of_nat (round_half_even (p * 2 ^ nat (- sh)) q) / 2 ^ nat (- sh)))"

fun float_neg :: "pyfloat \<Rightarrow> pyfloat" where
  "float_neg (Fin x) = Fin (- x)"
| "float_neg (Infty s) = Infty (\<not> s)"
| "float_neg NaN = NaN"

text \<open>
  \<open>float(d)\<close> (\<open>Decimal.__float__\<close>): the correctly rounded binary64 value of a finite
  \<open>Decimal\<close>; a signalling NaN raises \<open>ValueError\<close>.
\<close>

fun py_float :: "decimal \<Rightarrow> exc + pyfloat" where
  "py_float (SNaN s) = Inl (Exc ValueError ''cannot convert signaling NaN to float'')"
| "py_float (QNaN s) = Inr NaN"
| "py_float (Infinite s) = Inr (Infty s)"
| "py_float (Finite s c e) =
     (if c = 0 then Inr (Fin 0)
      else
        let x = (if e \<ge> 0 then binary64 (c * 10 ^ nat e) 1 else binary64 c (10 ^ nat (- e)))
        in Inr (if s then float_neg x else x))"

text \<open>The truth value of a number read back from the store: false for zero.\<close>

fun float_truthy :: "pyfloat \<Rightarrow> bool" where
  "float_truthy (Fin x) = (x \<noteq> 0)"
| "float_truthy f = True"

subsection \<open>The store: tables, the connection and its transaction\<close>

text \<open>
  The three tables of \<open>create_tables\<close>, one record per row with the columns of the
  schema. Timestamps are numbers read from a clock. A numeric column holds the value that
  was bound, or \<open>NULL\<close> (\<open>None\<close>); SQLite stores a bound NaN as \<open>NULL\<close>.
\<close>

record bank_row =
  bank_id :: nat
  bank_name :: string
  bank_created_at :: nat

record account_row =
  account_id :: nat
  account_bank_id :: nat
  account_number :: string
  account_name :: "string option"
  account_type :: string
  opening_balance :: "pyfloat option"
  current_balance :: "pyfloat option"
  is_active :: bool
  account_created_at :: nat
  account_updated_at :: nat

record transaction_row =
  transaction_id :: nat
  txn_account_id :: nat
  transaction_date :: string
  description :: string
  amount :: pyfloat
  transaction_type :: string
  reference_number :: "string option"
  balance_after :: "pyfloat option"
  txn_created_at :: nat
  txn_updated_at :: nat

text \<open>
  A snapshot of the database file: the rows of each table in rowid order, and for each
  table the largest rowid handed out so far (\<open>sqlite_sequence\<close>, which
  \<open>AUTOINCREMENT\<close> keeps).
\<close>

record store =
  banks :: "bank_row list"
  accounts :: "account_row list"
  transactions :: "transaction_row list"
  banks_seq :: nat
  accounts_seq :: nat
  transactions_seq :: nat

text \<open>
  \<open>self.conn\<close>: \<open>committed\<close> is what the file durably holds, \<open>conn\<close> is what the
  connection sees, its uncommitted writes included. \<open>commit\<close> makes the view durable,
  \<open>rollback\<close> discards the uncommitted writes.
\<close>

record database =
  committed :: store
  conn :: store

definition commit :: "database \<Rightarrow> database" where
  "commit db = db\<lparr>committed := conn db\<rparr>"

definition rollback :: "database \<Rightarrow> database" where
  "rollback db = db\<lparr>conn := committed db\<rparr>"

definition empty_store :: store where
  "empty_store = \<lparr>banks = [], accounts = [], transactions = [],
                   banks_seq = 0, accounts_seq = 0, transactions_seq = 0\<rparr>"

definition new_database :: database where
  "new_database = \<lparr>committed = empty_store, conn = empty_store\<rparr>"

text \<open>The rowid \<open>AUTOINCREMENT\<close> gives a new row: one more than every rowid so far.\<close>

definition next_rowid :: "nat \<Rightarrow> nat list \<Rightarrow> nat" where
  "next_rowid seq ids = Suc (fold max ids seq)"

text \<open>
  The statements the connection executes. Any of them may raise (\<open>sqlite3.Error\<close>: disk
  full, database locked, ...) and each reads \<open>CURRENT_TIMESTAMP\<close> when it runs: the
  environment says which statements raise, with which exception, and what the clock shows.
  A statement that raises changes nothing.
\<close>

datatype db_op =
    SelectBank | InsertBank | CommitBank
  | SelectAccount | InsertAccount | CommitAccount
  | InsertTransaction nat
  | SelectBalance | UpdateBalance | CommitImport

record env =
  fault :: "db_op \<Rightarrow> exc option"
  clock :: "db_op \<Rightarrow> nat"

subsection \<open>\<open>get_or_create_bank\<close> and \<open>get_or_create_account\<close>\<close>

text \<open>
  A method that touches the connection returns its result, or the exception it raises,
  together with the database it leaves behind.
\<close>

definition get_or_create_bank :: "env \<Rightarrow> database \<Rightarrow> string \<Rightarrow> (exc + nat) \<times> database" where
  "get_or_create_bank en db name =
     (case fault en SelectBank of
        Some e \<Rightarrow> (Inl e, db)
      | None \<Rightarrow>
          (case find (\<lambda>b. bank_name b = name) (banks (conn db)) of
             Some b \<Rightarrow> (Inr (bank_id b), db)
           | None \<Rightarrow>
               (case fault en InsertBank of
                  Some e \<Rightarrow> (Inl e, db)
                | None \<Rightarrow>
                    let st = conn db;
                        lastrowid = next_rowid (banks_seq st) (map bank_id (banks st));
                        db1 = db\<lparr>conn := st\<lparr>
                                banks := banks st @
                                  [\<lparr>bank_id = lastrowid, bank_name = name,
                                    bank_created_at = clock en InsertBank\<rparr>],
                                banks_seq := lastrowid\<rparr>\<rparr>
                    in (case fault en CommitBank of
                          Some e \<Rightarrow> (Inl e, db1)
                        | None \<Rightarrow> (Inr lastrowid, commit db1)))))"

definition get_or_create_account ::
    "env \<Rightarrow> database \<Rightarrow> nat \<Rightarrow> string \<Rightarrow> string option \<Rightarrow> string \<Rightarrow> (exc + nat) \<times> database" where
  "get_or_create_account en db bid number name type =
     (case fault en SelectAccount of
        Some e \<Rightarrow> (Inl e, db)
      | None \<Rightarrow>
          (case find (\<lambda>a. account_bank_id a = bid \<and> account_number a = number)
                  (accounts (conn db)) of
             Some a \<Rightarrow> (Inr (account_id a), db)
           | None \<Rightarrow>
               (case fault en InsertAccount of
                  Some e \<Rightarrow> (Inl e, db)
                | None \<Rightarrow>
                    let st = conn db;
                        lastrowid = next_rowid (accounts_seq st) (map account_id (accounts st));
                        db1 = db\<lparr>conn := st\<lparr>
                                accounts := accounts st @
                                  [\<lparr>account_id = lastrowid, account_bank_id = bid,
                                    account_number = number, account_name = name,
                                    account_type = type,
                                    opening_balance = Some (Fin 0), current_balance = None,
                                    is_active = True,
                                    account_created_at = clock en InsertAccount,
                                    account_updated_at = clock en InsertAccount\<rparr>],
                                accounts_seq := lastrowid\<rparr>\<rparr>
                    in (case fault en CommitAccount of
                          Some e \<Rightarrow> (Inl e, db1)
                        | None \<Rightarrow> (Inr lastrowid, commit db1)))))"

subsection \<open>The rows of the tabularized source\<close>

text \<open>
  \<open>pd.read_csv(csv_file_path, skiprows=6)\<close> either raises or gives a \<open>DataFrame\<close>, whose
  rows \<open>iterrows\<close> hands out with the labels 0, 1, 2, ... A cell is \<open>None\<close> when
  \<open>pd.isna\<close> holds for it and \<open>Some s\<close> otherwise, \<open>s\<close> being what \<open>str\<close> gives for it.
\<close>

type_synonym cell = "string option"
type_synonym row = "cell list"
type_synonym dataframe = "row list"

text \<open>\<open>row.iloc[k]\<close>: a position beyond the row raises \<open>IndexError\<close>.\<close>

definition iloc :: "row \<Rightarrow> nat \<Rightarrow> exc + cell" where
  "iloc r k =
     (if k < length r then Inr (r ! k)
      else Inl (Exc IndexError ''single positional indexer is out-of-bounds''))"

text \<open>The values bound to the \<open>INSERT\<close> of one transaction.\<close>

record txn_values =
  v_transaction_date :: string
  v_description :: string
  v_amount :: pyfloat
  v_transaction_type :: string
  v_balance_after :: "pyfloat option"

text \<open>
  The body of the \<open>try\<close> of the row loop up to the argument tuple of the \<open>INSERT\<close>:
  \<open>Inl e\<close> when it raises \<open>e\<close>, \<open>Inr None\<close> when it reaches a \<open>continue\<close>, and
  \<open>Inr (Some v)\<close> with the values to insert otherwise.
\<close>

definition normalize_row :: "row \<Rightarrow> exc + txn_values option" where
  "normalize_row r =
     (case iloc r 0 of Inl e \<Rightarrow> Inl e | Inr c0 \<Rightarrow>
      (case c0 of None \<Rightarrow> Inr None | Some s0 \<Rightarrow>
       if strip s0 = [] then Inr None
       else
         let date_str = strip s0 in
         (case iloc r 1 of Inl e \<Rightarrow> Inl e | Inr c1 \<Rightarrow>
          let descr = (case c1 of None \<Rightarrow> [] | Some s1 \<Rightarrow> strip s1) in
          (case iloc r 2 of Inl e \<Rightarrow> Inl e | Inr c2 \<Rightarrow>
           let amount_str = (case c2 of None \<Rightarrow> ''0'' | Some s2 \<Rightarrow> strip s2);
               balance_str = (if length r > 3
                              then (case r ! 3 of None \<Rightarrow> None | Some s3 \<Rightarrow> Some (strip s3))
                              else None)
           in
           if contains descr ''Total'' \<or> contains descr ''Beginning'' \<or>
              contains descr ''Ending'' \<or> contains descr ''Summary''
           then Inr None
           else if date_str = ''Date'' \<or> descr = ''Description'' then Inr None
           else if (case c2 of None \<Rightarrow> True | Some s2 \<Rightarrow> strip s2 = ''nan'') then Inr None
           else
             (case parse_date date_str of Inl e \<Rightarrow> Inl e | Inr tdate \<Rightarrow>
              (case parse_amount (Some amount_str) of Inl e \<Rightarrow> Inl e | Inr amt \<Rightarrow>
               (case (case balance_str of
                        None \<Rightarrow> Inr None
                      | Some b \<Rightarrow> if b = [] then Inr None
                                  else map_sum id Some (parse_amount (Some b))) of
                  Inl e \<Rightarrow> Inl e
                | Inr bal \<Rightarrow>
                  (case dec_ge0 amt of Inl e \<Rightarrow> Inl e | Inr nonneg \<Rightarrow>
                   let ttype = (if nonneg then ''credit'' else ''debit'') in
                   (case py_float amt of Inl e \<Rightarrow> Inl e | Inr famount \<Rightarrow>
                    (case (case bal of
                             None \<Rightarrow> Inr None
                           | Some b \<Rightarrow> if dec_truthy b then map_sum id Some (py_float b)
                                       else Inr None) of
                       Inl e \<Rightarrow> Inl e
                     | Inr fbalance \<Rightarrow>
                         Inr (Some \<lparr>v_transaction_date = tdate,
                                    v_description = descr,
                                    v_amount = famount,
                                    v_transaction_type = ttype,
                                    v_balance_after = fbalance\<rparr>)))))))))))"

text \<open>
  The \<open>INSERT INTO transactions\<close> of row \<open>i\<close>. \<open>amount\<close> is \<open>NOT NULL\<close>, and a NaN is
  bound as \<open>NULL\<close>. The account exists: \<open>account_id\<close> was resolved just before.
\<close>

definition insert_transaction ::
    "env \<Rightarrow> nat \<Rightarrow> nat \<Rightarrow> txn_values \<Rightarrow> database \<Rightarrow> exc option \<times> database" where
  "insert_transaction en i aid v db =
     (case fault en (InsertTransaction i) of
        Some e \<Rightarrow> (Some e, db)
      | None \<Rightarrow>
          if v_amount v = NaN
          then (Some (Exc IntegrityError ''NOT NULL constraint failed: transactions.amount''), db)
          else
            let st = conn db;
                rowid = next_rowid (transactions_seq st) (map transaction_id (transactions st))
            in (None,
                db\<lparr>conn := st\<lparr>
                  transactions := transactions st @
                    [\<lparr>transaction_id = rowid, txn_account_id = aid,
                      transaction_date = v_transaction_date v,
                      description = v_description v,
                      amount = v_amount v,
                      transaction_type = v_transaction_type v,
                      reference_number = None,
                      balance_after = (case v_balance_after v of
                                         None \<Rightarrow> None
                                       | Some b \<Rightarrow> if b = NaN then None else Some b),
                      txn_created_at = clock en (InsertTransaction i),
                      txn_updated_at = clock en (InsertTransaction i)\<rparr>],
                  transactions_seq := rowid\<rparr>\<rparr>))"

text \<open>
  One turn of the loop: \<open>Inl e\<close> when the \<open>except\<close> clause catches \<open>e\<close>, \<open>Inr False\<close>
  for a \<open>continue\<close>, \<open>Inr True\<close> when the transaction was inserted.
\<close>

definition process_row ::
    "env \<Rightarrow> nat \<Rightarrow> nat \<Rightarrow> row \<Rightarrow> database \<Rightarrow> (exc + bool) \<times> database" where
  "process_row en aid i r db =
     (case normalize_row r of
        Inl e \<Rightarrow> (Inl e, db)
      | Inr None \<Rightarrow> (Inr False, db)
      | Inr (Some v) \<Rightarrow>
          (case insert_transaction en i aid v db of
             (Some e, db') \<Rightarrow> (Inl e, db')
           | (None, db') \<Rightarrow> (Inr True, db')))"

text \<open>
  The loop \<open>for i, row in df.iterrows()\<close>, from label \<open>i\<close> on, over the database, the
  counter \<open>transactions_imported\<close> and the list \<open>errors\<close>.
\<close>

fun process_rows ::
    "env \<Rightarrow> nat \<Rightarrow> nat \<Rightarrow> dataframe \<Rightarrow> database \<times> nat \<times> string list
      \<Rightarrow> database \<times> nat \<times> string list" where
  "process_rows en aid i [] st = st"
| "process_rows en aid i (r # rest) (db, transactions_imported, errors) =
     (case process_row en aid i r db of
        (Inl e, db') \<Rightarrow>
          process_rows en aid (Suc i) rest
            (db', transactions_imported,
             errors @ [''Row '' @ str_nat (i + 7) @ '': '' @ str_exc e])
      | (Inr False, db') \<Rightarrow>
          process_rows en aid (Suc i) rest (db', transactions_imported, errors)
      | (Inr True, db') \<Rightarrow>
          process_rows en aid (Suc i) rest (db', transactions_imported + 1, errors))"

subsection \<open>The balance update\<close>

text \<open>Text comparison of SQLite (\<open>BINARY\<close> collation): lexicographic on the code points.\<close>

fun text_less :: "string \<Rightarrow> string \<Rightarrow> bool" where
  "text_less [] [] = False"
| "text_less [] (y # ys) = True"
| "text_less (x # xs) [] = False"
| "text_less (x # xs) (y # ys) =
     ((of_char x :: nat) < of_char y \<or> (x = y \<and> text_less xs ys))"

text \<open>
  \<open>ORDER BY transaction_date DESC, transaction_id DESC\<close>: \<open>a\<close> comes before \<open>b\<close>.
\<close>

definition comes_before :: "transaction_row \<Rightarrow> transaction_row \<Rightarrow> bool" where
  "comes_before a b =
     (text_less (transaction_date b) (transaction_date a) \<or>
      (transaction_date a = transaction_date b \<and> transaction_id b < transaction_id a))"

text \<open>
  \<open>SELECT balance_after FROM transactions WHERE account_id = ? ORDER BY ... LIMIT 1\<close>
  followed by \<open>fetchone()\<close>: \<open>None\<close> when the account has no transaction, else the
  \<open>balance_after\<close> of the first row in that order.
\<close>

definition select_latest_balance :: "store \<Rightarrow> nat \<Rightarrow> pyfloat option option" where
  "select_latest_balance st aid =
     (case filter (\<lambda>t. txn_account_id t = aid) (transactions st) of
        [] \<Rightarrow> None
      | t # ts \<Rightarrow>
          Some (balance_after (foldl (\<lambda>best x. if comes_before x best then x else best) t ts)))"

definition update_current_balance :: "store \<Rightarrow> nat \<Rightarrow> pyfloat \<Rightarrow> nat \<Rightarrow> store" where
  "update_current_balance st aid b now =
     st\<lparr>accounts :=
          map (\<lambda>a. if account_id a = aid
                   then a\<lparr>current_balance := Some b, account_updated_at := now\<rparr>
                   else a)
              (accounts st)\<rparr>"

text \<open>
  The block under \<open>if transactions_imported > 0\<close>: the exception it raises, if any, and
  the database it leaves.
\<close>

definition recompute_balance :: "env \<Rightarrow> nat \<Rightarrow> database \<Rightarrow> exc option \<times> database" where
  "recompute_balance en aid db =
     (case fault en SelectBalance of
        Some e \<Rightarrow> (Some e, db)
      | None \<Rightarrow>
          (case select_latest_balance (conn db) aid of
             None \<Rightarrow> (None, db)
           | Some None \<Rightarrow> (None, db)
           | Some (Some b) \<Rightarrow>
               if float_truthy b then
                 (case fault en UpdateBalance of
                    Some e \<Rightarrow> (Some e, db)
                  | None \<Rightarrow>
                      (None, db\<lparr>conn := update_current_balance (conn db) aid b
                                           (clock en UpdateBalance)\<rparr>))
               else (None, db)))"

subsection \<open>\<open>import_csv_data\<close>\<close>

text \<open>
  The dictionary the method returns; a key the dictionary does not have is \<open>None\<close>.
\<close>

record import_result =
  success :: bool
  error :: "string option"
  transactions_imported :: nat
  errors :: "string list"
  result_bank_id :: "nat option"
  result_account_id :: "nat option"

text \<open>The \<open>except\<close> clause of the method: roll back and report.\<close>

definition import_failed :: "exc \<Rightarrow> database \<Rightarrow> import_result \<times> database" where
  "import_failed e db =
     (\<lparr>success = False, error = Some (str_exc e), transactions_imported = 0, errors = [],
       result_bank_id = None, result_account_id = None\<rparr>,
      rollback db)"

text \<open>
  \<open>import_csv_data(csv_file_path, bank_name, account_number, account_name)\<close>, with the
  outcome of \<open>pd.read_csv(csv_file_path, skiprows=6)\<close> in the place of the path.
\<close>

definition import_csv_data ::
    "env \<Rightarrow> database \<Rightarrow> exc + dataframe \<Rightarrow> string \<Rightarrow> string \<Rightarrow> string option
      \<Rightarrow> import_result \<times> database" where
  "import_csv_data en db read_csv bank account_no acc_name =
     (case read_csv of
        Inl e \<Rightarrow> import_failed e db
      | Inr df \<Rightarrow>
          (case get_or_create_bank en db bank of
             (Inl e, db1) \<Rightarrow> import_failed e db1
           | (Inr bid, db1) \<Rightarrow>
               (case get_or_create_account en db1 bid account_no acc_name ''checking'' of
                  (Inl e, db2) \<Rightarrow> import_failed e db2
                | (Inr aid, db2) \<Rightarrow>
                    (case process_rows en aid 0 df (db2, 0, []) of
                       (db3, n, errs) \<Rightarrow>
                         (case (if n > 0 then recompute_balance en aid db3 else (None, db3)) of
                            (Some e, db4) \<Rightarrow> import_failed e db4
                          | (None, db4) \<Rightarrow>
                              (case fault en CommitImport of
                                 Some e \<Rightarrow> import_failed e db4
                               | None \<Rightarrow>
                                   (\<lparr>success = True, error = None,
                                     transactions_imported = n, errors = errs,
                                     result_bank_id = Some bid,
                                     result_account_id = Some aid\<rparr>,
                                    commit db4)))))))"

subsection \<open>Environments and inputs used in the examples\<close>

text \<open>An environment in which no statement raises and the clock shows \<open>t\<close>.\<close>

definition calm :: "nat \<Rightarrow> env" where
  "calm t = \<lparr>fault = (\<lambda>op. None), clock = (\<lambda>op. t)\<rparr>"

text \<open>No statement outside the row loop raises (an \<open>INSERT\<close> of a row still may).\<close>

definition no_structural_fault :: "env \<Rightarrow> bool" where
  "no_structural_fault en =
     (fault en SelectBank = None \<and> fault en InsertBank = None \<and> fault en CommitBank = None \<and>
      fault en SelectAccount = None \<and> fault en InsertAccount = None \<and>
      fault en CommitAccount = None \<and> fault en SelectBalance = None \<and>
      fault en UpdateBalance = None \<and> fault en CommitImport = None)"

section \<open>Properties\<close>

subsection \<open>A source that cannot be read\<close>

text \<open>
  Claim C8. When \<open>pd.read_csv\<close> raises (a nonexistent file, a file that is not tabular),
  \<open>import_csv_data\<close> returns \<open>success = False\<close> with the message of the exception,
  \<open>transactions_imported = 0\<close> and no row errors; the durable store is what it was, and
  the connection is rolled back to it: no transaction, bank or account row is created.
  \<open>read_csv\<close> is the first statement of the method, before the bank and the account are
  resolved.
\<close>

theorem import_unreadable_source:
  "fst (import_csv_data en db (Inl e) bank account_no acc_name) =
     \<lparr>success = False, error = Some (str_exc e), transactions_imported = 0, errors = [],
      result_bank_id = None, result_account_id = None\<rparr> \<and>
   committed (snd (import_csv_data en db (Inl e) bank account_no acc_name)) = committed db \<and>
   conn (snd (import_csv_data en db (Inl e) bank account_no acc_name)) = committed db"
  by (simp add: import_csv_data_def import_failed_def rollback_def)

theorem import_unreadable_source_witness:
  "import_csv_data (calm 0) new_database
     (Inl (Exc FileNotFoundError ''[Errno 2] No such file or directory''))
     ''Test Bank'' ''1234567890'' (Some ''Test Account'') =
     (\<lparr>success = False,
       error = Some ''[Errno 2] No such file or directory'',
       transactions_imported = 0, errors = [],
       result_bank_id = None, result_account_id = None\<rparr>,
      new_database)"
  using import_unreadable_source
    [of "calm 0" new_database
        "Exc FileNotFoundError ''[Errno 2] No such file or directory''"
        "''Test Bank''" "''1234567890''" "Some ''Test Account''"]
  by (simp add: prod_eq_iff new_database_def)

subsection \<open>\<open>parse_date\<close> on a date without zero padding\<close>

text \<open>
  Claim C6. \<open>parse_date\<close> is to return the date in the form \<open>YYYY-MM-DD\<close> and to fail on
  any text that has neither the shape \<open>MM/DD/YYYY\<close> nor the strict ISO shape. On a
  text without \<open>/\<close> the method checks the text with \<open>strptime(date_str, '%Y-%m-%d')\<close>,
  which accepts months and days of one digit, and then returns the text itself: the text
  \<open>2024-4-1\<close> is returned as it is, neither rejected nor normalized to \<open>2024-04-01\<close>.
\<close>

theorem parse_date_unpadded_iso:
  "parse_date ''2024-4-1'' = Inr ''2024-4-1''"
  by (simp add: parse_date_def strptime_def match_Y_def match_m_def match_d_def alt1_def
      alt2_def digit_in_def two_digits_def is_digit_def digit_val_def digits_val_def
      days_in_month_def is_leap_def)

end
